theory Spec2Isabelle
  imports Complex_Main "HOL-Library.Product_Lexorder"
begin

section \<open>Strings\<close>

text \<open>
  A Python \<open>str\<close> is modelled as a \<open>string\<close>; a \<open>char\<close> stands for the code point of
  the same number, so the model covers the strings whose code points are below 256
  (the source itself names one of them, \<open>"\xa0"\<close>). The character classes below are
  those of CPython 3.11 restricted to that range.
\<close>

definition py_isspace :: "char \<Rightarrow> bool" where
  \<comment> \<open>\<open>str.isspace\<close>, and \<open>\s\<close> of a \<open>str\<close> pattern\<close>
  "py_isspace c = (of_char c \<in> {9, 10, 11, 12, 13, 28, 29, 30, 31, 32, 133, 160 :: nat})"

definition is_digit :: "char \<Rightarrow> bool" where
  \<comment> \<open>\<open>\d\<close> of a \<open>str\<close> pattern\<close>
  "is_digit c = (c \<in> set ''0123456789'')"

definition is_word :: "char \<Rightarrow> bool" where
  \<comment> \<open>\<open>\w\<close> of a \<open>str\<close> pattern\<close>
  "is_word c = (let n = (of_char c :: nat) in
     (48 \<le> n \<and> n \<le> 57) \<or> (65 \<le> n \<and> n \<le> 90) \<or> n = 95 \<or> (97 \<le> n \<and> n \<le> 122) \<or>
     n \<in> {170, 178, 179, 181, 185, 186, 188, 189, 190} \<or>
     (192 \<le> n \<and> n \<le> 214) \<or> (216 \<le> n \<and> n \<le> 246) \<or> (248 \<le> n \<and> n \<le> 255))"

definition py_lower_char :: "char \<Rightarrow> char" where
  \<comment> \<open>\<open>str.lower\<close> on one character\<close>
  "py_lower_char c = (let n = (of_char c :: nat) in
     if (65 \<le> n \<and> n \<le> 90) \<or> (192 \<le> n \<and> n \<le> 214) \<or> (216 \<le> n \<and> n \<le> 222)
     then char_of (n + 32) else c)"

definition py_lower :: "string \<Rightarrow> string" where
  "py_lower s = map py_lower_char s"

definition py_strip :: "string \<Rightarrow> string" where
  \<comment> \<open>\<open>s.strip()\<close>\<close>
  "py_strip s = rev (dropWhile py_isspace (rev (dropWhile py_isspace s)))"

definition replace_char :: "char \<Rightarrow> char \<Rightarrow> string \<Rightarrow> string" where
  \<comment> \<open>\<open>s.replace(a, b)\<close> for one-character \<open>a\<close> and \<open>b\<close>\<close>
  "replace_char a b s = map (\<lambda>c. if c = a then b else c) s"

definition remove_char :: "char \<Rightarrow> string \<Rightarrow> string" where
  \<comment> \<open>\<open>s.replace(a, "")\<close> for one-character \<open>a\<close>\<close>
  "remove_char a s = filter (\<lambda>c. c \<noteq> a) s"

definition startswith :: "string \<Rightarrow> string \<Rightarrow> bool" where
  \<comment> \<open>\<open>s.startswith(p)\<close>\<close>
  "startswith s p = (take (length p) s = p)"

fun contains_str :: "string \<Rightarrow> string \<Rightarrow> bool" where
  \<comment> \<open>\<open>p in s\<close> for two strings\<close>
  "contains_str p [] = (p = [])"
| "contains_str p (c # cs) = (startswith (c # cs) p \<or> contains_str p cs)"

subsection \<open>The built-in \<open>int\<close> on a string\<close>

fun int_body :: "string \<Rightarrow> bool" where
  \<comment> \<open>decimal digits, single underscores allowed between two digits\<close>
  "int_body [] = False"
| "int_body [c] = is_digit c"
| "int_body (c # d # r) = (is_digit c \<and> (if d = CHR ''_'' then int_body r else int_body (d # r)))"

definition digits_value :: "string \<Rightarrow> int" where
  "digits_value ds = foldl (\<lambda>a c. 10 * a + (int (of_char c) - 48)) 0 ds"

definition int_max_str_digits :: nat where
  \<comment> \<open>the interpreter's default limit on the digits of a converted string\<close>
  "int_max_str_digits = 4300"

definition py_int :: "string \<Rightarrow> int option" where
  \<comment> \<open>\<open>int(s)\<close> for a string without surrounding whitespace; \<open>None\<close> is \<open>ValueError\<close>\<close>
  "py_int s =
     (let (neg, body) = (case s of
                           c # r \<Rightarrow> if c = CHR ''-'' then (True, r)
                                    else if c = CHR ''+'' then (False, r) else (False, s)
                         | [] \<Rightarrow> (False, s));
          ds = remove_char (CHR ''_'') body
      in if \<not> int_body body then None
         else if length ds > int_max_str_digits then None
         else Some (if neg then - digits_value ds else digits_value ds))"

section \<open>Field parsers\<close>

definition to_int :: "string option \<Rightarrow> int option" where
  \<comment> \<open>\<open>_to_int\<close>; every call site passes \<open>None\<close> or a \<open>str\<close>, and the
      \<open>except Exception\<close> turns the \<open>ValueError\<close> of \<open>int\<close> into \<open>None\<close>\<close>
  "to_int s = (case s of None \<Rightarrow> None
               | Some t \<Rightarrow> py_int (py_strip (remove_char (CHR '','') t)))"

definition digit_or_comma :: "char \<Rightarrow> bool" where
  \<comment> \<open>the class \<open>[\d,]\<close>\<close>
  "digit_or_comma c = (is_digit c \<or> c = CHR '','')"

text \<open>
  The three patterns are matched as the backtracking matcher does: \<open>search\<close> tries the
  start positions from left to right and returns the first match. In \<open>_price_re\<close> and
  \<open>_miles_re\<close> each greedy repetition is followed by an item that no character of
  the repeated class matches, so giving characters back never yields a match and the
  greedy (longest) repetition is the only candidate at each start position.
\<close>

definition price_match :: "string \<Rightarrow> string option" where
  \<comment> \<open>\<open>\$[\s]*([\d,]+)\<close> anchored at the head of \<open>s\<close>; the result is group 1\<close>
  "price_match s = (case s of
       [] \<Rightarrow> None
     | c # r \<Rightarrow> if c = CHR ''$''
                then (let g = takeWhile digit_or_comma (dropWhile py_isspace r)
                      in if g = [] then None else Some g)
                else None)"

fun price_search :: "string \<Rightarrow> string option" where
  \<comment> \<open>\<open>_price_re.search\<close>\<close>
  "price_search [] = None"
| "price_search (c # cs) = (case price_match (c # cs) of
                              Some g \<Rightarrow> Some g | None \<Rightarrow> price_search cs)"

definition miles_match :: "string \<Rightarrow> string option" where
  \<comment> \<open>\<open>([\d,]+)\s*miles?\<close> with \<open>re.I\<close>, anchored at the head of \<open>s\<close>; group 1\<close>
  "miles_match s =
     (let g = takeWhile digit_or_comma s
      in if g = [] then None
         else if py_lower (take 4 (dropWhile py_isspace (dropWhile digit_or_comma s))) = ''mile''
         then Some g else None)"

fun miles_search :: "string \<Rightarrow> string option" where
  \<comment> \<open>\<open>_miles_re.search\<close>\<close>
  "miles_search [] = None"
| "miles_search (c # cs) = (case miles_match (c # cs) of
                              Some g \<Rightarrow> Some g | None \<Rightarrow> miles_search cs)"

definition year_match :: "char option \<Rightarrow> string \<Rightarrow> string option" where
  \<comment> \<open>\<open>\b(19|20)\d{2}\b\<close> anchored at the head of \<open>s\<close>, \<open>prev\<close> being the character
      before it (\<open>None\<close> at the start of the text); the result is group 0\<close>
  "year_match prev s =
     (let g = take 4 s
      in if (case prev of None \<Rightarrow> True | Some p \<Rightarrow> \<not> is_word p)
            \<and> length g = 4
            \<and> (take 2 g = ''19'' \<or> take 2 g = ''20'')
            \<and> is_digit (g ! 2) \<and> is_digit (g ! 3)
            \<and> (case drop 4 s of [] \<Rightarrow> True | n # _ \<Rightarrow> \<not> is_word n)
         then Some g else None)"

fun year_search :: "char option \<Rightarrow> string \<Rightarrow> string option" where
  \<comment> \<open>\<open>_year_re.search\<close>, started with \<open>prev = None\<close>\<close>
  "year_search prev [] = None"
| "year_search prev (c # cs) = (case year_match prev (c # cs) of
                                  Some g \<Rightarrow> Some g | None \<Rightarrow> year_search (Some c) cs)"

definition parse_price :: "string option \<Rightarrow> int option" where
  "parse_price text = (case text of
       None \<Rightarrow> None
     | Some t \<Rightarrow> if t = [] then None
                 else (case price_search (replace_char (CHR 0xA0) (CHR '' '') t) of
                         Some g \<Rightarrow> to_int (Some g) | None \<Rightarrow> None))"

definition parse_miles :: "string option \<Rightarrow> int option" where
  "parse_miles text = (case text of
       None \<Rightarrow> None
     | Some t \<Rightarrow> if t = [] then None
                 else (case miles_search (replace_char (CHR 0xA0) (CHR '' '') t) of
                         Some g \<Rightarrow> to_int (Some g) | None \<Rightarrow> None))"

section \<open>Values\<close>

datatype py_error = ValueError | TypeError | AttributeError | BrowserError

datatype pyfloat = Finite rat | PosInf | NegInf | NaN

text \<open>
  The values that \<open>json.loads\<close> produces and that the fields of a row hold. A
  dictionary keeps its items in insertion order.
\<close>

datatype pyval =
    PNone
  | PBool bool
  | PInt int
  | PFloat pyfloat
  | PStr string
  | PList "pyval list"
  | PDict "(string \<times> pyval) list"

fun truthy :: "pyval \<Rightarrow> bool" where
  \<comment> \<open>the truth value that \<open>not\<close>, \<open>or\<close>, \<open>and\<close> and \<open>if\<close> test\<close>
  "truthy PNone = False"
| "truthy (PBool b) = b"
| "truthy (PInt i) = (i \<noteq> 0)"
| "truthy (PFloat f) = (f \<noteq> Finite 0)"
| "truthy (PStr s) = (s \<noteq> [])"
| "truthy (PList xs) = (xs \<noteq> [])"
| "truthy (PDict kvs) = (kvs \<noteq> [])"

definition py_or :: "pyval \<Rightarrow> pyval \<Rightarrow> pyval" where
  \<comment> \<open>\<open>a or b\<close>\<close>
  "py_or a b = (if truthy a then a else b)"

definition int_truthy :: "int option \<Rightarrow> bool" where
  \<comment> \<open>truth value of an \<open>Optional[int]\<close>\<close>
  "int_truthy x = (case x of None \<Rightarrow> False | Some n \<Rightarrow> n \<noteq> 0)"

definition int_or :: "int option \<Rightarrow> int option \<Rightarrow> int option" where
  \<comment> \<open>\<open>a or b\<close> on two \<open>Optional[int]\<close>\<close>
  "int_or a b = (if int_truthy a then a else b)"

definition parse_year_from_text :: "pyval \<Rightarrow> py_error + int option" where
  \<comment> \<open>callers pass a title that may be any value; \<open>search\<close> raises \<open>TypeError\<close> on
      a value that is not a string\<close>
  "parse_year_from_text text =
     (if \<not> truthy text then Inr None
      else (case text of
              PStr t \<Rightarrow> (case year_search None t of
                           Some g \<Rightarrow> Inr (py_int g) | None \<Rightarrow> Inr None)
            | _ \<Rightarrow> Inl TypeError))"

section \<open>URLs\<close>

text \<open>
  \<open>urlsplit\<close>, \<open>urlunsplit\<close>, \<open>urlparse\<close>, \<open>urlunparse\<close> and \<open>urljoin\<close> are the
  functions of \<open>urllib.parse\<close> (CPython 3.11) that the source imports, written out for
  \<open>str\<close> arguments. The validation of a bracketed host (an IPv6 or IPvFuture literal,
  \<open>_check_bracketed_host\<close>) is the parameter \<open>bh\<close>: \<open>bh h\<close> holds when the library
  accepts \<open>h\<close>. \<open>_checknetloc\<close> never raises on code points below 256 (none of them
  normalises to one of \<open>/?#@:\<close>), so it has no branch here.
\<close>

definition uses_relative :: "string list" where
  "uses_relative = ['''', ''ftp'', ''http'', ''gopher'', ''nntp'', ''imap'',
     ''wais'', ''file'', ''https'', ''shttp'', ''mms'',
     ''prospero'', ''rtsp'', ''rtsps'', ''rtspu'', ''sftp'',
     ''svn'', ''svn+ssh'', ''ws'', ''wss'']"

definition uses_netloc :: "string list" where
  "uses_netloc = ['''', ''ftp'', ''http'', ''gopher'', ''nntp'', ''telnet'',
     ''imap'', ''wais'', ''file'', ''mms'', ''https'', ''shttp'',
     ''snews'', ''prospero'', ''rtsp'', ''rtsps'', ''rtspu'', ''rsync'',
     ''svn'', ''svn+ssh'', ''sftp'', ''nfs'', ''git'', ''git+ssh'',
     ''ws'', ''wss'']"

definition uses_params :: "string list" where
  "uses_params = ['''', ''ftp'', ''hdl'', ''prospero'', ''http'', ''imap'',
     ''https'', ''shttp'', ''rtsp'', ''rtsps'', ''rtspu'', ''sip'',
     ''sips'', ''mms'', ''sftp'', ''tel'']"

definition scheme_char :: "char \<Rightarrow> bool" where
  \<comment> \<open>\<open>c in scheme_chars\<close>: the letters \<open>a\<close> to \<open>z\<close> and \<open>A\<close> to \<open>Z\<close>, the
      digits, and \<open>+\<close>, \<open>-\<close>, \<open>.\<close>, by their code points\<close>
  "scheme_char c = (let n = (of_char c :: nat) in
     (97 \<le> n \<and> n \<le> 122) \<or> (65 \<le> n \<and> n \<le> 90) \<or> (48 \<le> n \<and> n \<le> 57)
     \<or> n = 43 \<or> n = 45 \<or> n = 46)"

definition ascii_alpha :: "char \<Rightarrow> bool" where
  \<comment> \<open>\<open>c.isascii() and c.isalpha()\<close>: the letters \<open>a\<close> to \<open>z\<close> and \<open>A\<close> to \<open>Z\<close>\<close>
  "ascii_alpha c = (let n = (of_char c :: nat) in
     (97 \<le> n \<and> n \<le> 122) \<or> (65 \<le> n \<and> n \<le> 90))"

definition c0_or_space :: "char \<Rightarrow> bool" where
  \<comment> \<open>\<open>c in _WHATWG_C0_CONTROL_OR_SPACE\<close>\<close>
  "c0_or_space c = ((of_char c :: nat) \<le> 32)"

definition unsafe_byte :: "char \<Rightarrow> bool" where
  \<comment> \<open>\<open>c in _UNSAFE_URL_BYTES_TO_REMOVE\<close>: tab, carriage return, newline\<close>
  "unsafe_byte c = (c = CHR 0x09 \<or> c = CHR 0x0D \<or> c = CHR 0x0A)"

definition split1 :: "char \<Rightarrow> string \<Rightarrow> string \<times> string" where
  \<comment> \<open>\<open>if c in url: url, rest = url.split(c, 1)\<close>, with \<open>rest = ''\<close> otherwise\<close>
  "split1 c s = (if c \<in> set s
                 then (takeWhile (\<lambda>x. x \<noteq> c) s, drop 1 (dropWhile (\<lambda>x. x \<noteq> c) s))
                 else (s, []))"

definition netloc_delim :: "char \<Rightarrow> bool" where
  "netloc_delim c = (c = CHR ''/'' \<or> c = CHR ''?'' \<or> c = CHR ''#'')"

definition splitnetloc :: "string \<Rightarrow> string \<times> string" where
  \<comment> \<open>\<open>_splitnetloc(url, 2)\<close>: the earliest of the three delimiters from index 2 on\<close>
  "splitnetloc url = (takeWhile (\<lambda>c. \<not> netloc_delim c) (drop 2 url),
                      dropWhile (\<lambda>c. \<not> netloc_delim c) (drop 2 url))"

definition netloc_ok :: "(string \<Rightarrow> bool) \<Rightarrow> string \<Rightarrow> bool" where
  \<comment> \<open>the two bracket checks of \<open>urlsplit\<close>; \<open>False\<close> is \<open>ValueError\<close>\<close>
  "netloc_ok bh netloc =
     (let lb = (CHR ''['' \<in> set netloc); rb = (CHR '']'' \<in> set netloc)
      in if (lb \<and> \<not> rb) \<or> (rb \<and> \<not> lb) then False
         else if lb \<and> rb
         then bh (takeWhile (\<lambda>c. c \<noteq> CHR '']'')
                    (drop 1 (dropWhile (\<lambda>c. c \<noteq> CHR ''['') netloc)))
         else True)"

definition split_scheme :: "string \<Rightarrow> string \<Rightarrow> string \<times> string" where
  \<comment> \<open>the scheme test of \<open>urlsplit\<close>: \<open>i = url.find(':')\<close>, \<open>i > 0\<close>, a first
      character that is an ASCII letter, and only scheme characters before the colon\<close>
  "split_scheme scheme url =
     (let pre = takeWhile (\<lambda>c. c \<noteq> CHR '':'') url
      in if CHR '':'' \<in> set url \<and> pre \<noteq> [] \<and> ascii_alpha (hd url) \<and> list_all scheme_char pre
         then (py_lower pre, drop (length pre + 1) url)
         else (scheme, url))"

definition urlsplit ::
  "(string \<Rightarrow> bool) \<Rightarrow> string \<Rightarrow> string \<Rightarrow>
   py_error + (string \<times> string \<times> string \<times> string \<times> string)" where
  "urlsplit bh url0 scheme0 =
     (let url1 = filter (\<lambda>c. \<not> unsafe_byte c) (dropWhile c0_or_space url0);
          scheme1 = filter (\<lambda>c. \<not> unsafe_byte c)
                      (rev (dropWhile c0_or_space (rev (dropWhile c0_or_space scheme0))));
          (scheme, url2) = split_scheme scheme1 url1;
          (netloc, url3) = (if take 2 url2 = ''//'' then splitnetloc url2 else ([], url2))
      in if take 2 url2 = ''//'' \<and> \<not> netloc_ok bh netloc then Inl ValueError
         else (let (url4, fragment) = split1 (CHR ''#'') url3;
                   (path, query) = split1 (CHR ''?'') url4
               in Inr (scheme, netloc, path, query, fragment)))"

definition urlunsplit :: "string \<times> string \<times> string \<times> string \<times> string \<Rightarrow> string" where
  "urlunsplit components =
     (case components of (scheme, netloc, url, query, fragment) \<Rightarrow>
        (let url1 = (if netloc \<noteq> [] \<or> (scheme \<noteq> [] \<and> scheme \<in> set uses_netloc)
                        \<or> take 2 url = ''//''
                     then ''//'' @ netloc
                          @ (if url \<noteq> [] \<and> take 1 url \<noteq> ''/'' then ''/'' @ url else url)
                     else url);
             url2 = (if scheme \<noteq> [] then scheme @ '':'' @ url1 else url1);
             url3 = (if query \<noteq> [] then url2 @ ''?'' @ query else url2)
         in if fragment \<noteq> [] then url3 @ ''#'' @ fragment else url3))"

definition splitparams :: "string \<Rightarrow> string \<times> string" where
  \<comment> \<open>\<open>_splitparams\<close>: the first \<open>;\<close> after the last \<open>/\<close>\<close>
  "splitparams url =
     (if CHR ''/'' \<in> set url
      then (let seg = rev (takeWhile (\<lambda>c. c \<noteq> CHR ''/'') (rev url));
                dir = take (length url - length seg) url
            in if CHR '';'' \<in> set seg
               then (dir @ takeWhile (\<lambda>c. c \<noteq> CHR '';'') seg,
                     drop 1 (dropWhile (\<lambda>c. c \<noteq> CHR '';'') seg))
               else (url, []))
      else (takeWhile (\<lambda>c. c \<noteq> CHR '';'') url, drop 1 (dropWhile (\<lambda>c. c \<noteq> CHR '';'') url)))"

definition urlparse ::
  "(string \<Rightarrow> bool) \<Rightarrow> string \<Rightarrow> string \<Rightarrow>
   py_error + (string \<times> string \<times> string \<times> string \<times> string \<times> string)" where
  "urlparse bh url scheme0 =
     (case urlsplit bh url scheme0 of
        Inl e \<Rightarrow> Inl e
      | Inr (scheme, netloc, path, query, fragment) \<Rightarrow>
          (if scheme \<in> set uses_params \<and> CHR '';'' \<in> set path
           then (let (path1, params) = splitparams path
                 in Inr (scheme, netloc, path1, params, query, fragment))
           else Inr (scheme, netloc, path, [], query, fragment)))"

definition urlunparse ::
  "string \<times> string \<times> string \<times> string \<times> string \<times> string \<Rightarrow> string" where
  "urlunparse components =
     (case components of (scheme, netloc, url, params, query, fragment) \<Rightarrow>
        urlunsplit (scheme, netloc, (if params \<noteq> [] then url @ '';'' @ params else url),
                    query, fragment))"

fun split_on :: "char \<Rightarrow> string \<Rightarrow> string list" where
  \<comment> \<open>\<open>s.split(c)\<close>\<close>
  "split_on c [] = [[]]"
| "split_on c (x # xs) =
     (if x = c then [] # split_on c xs
      else (x # hd (split_on c xs)) # tl (split_on c xs))"

fun join_with :: "char \<Rightarrow> string list \<Rightarrow> string" where
  \<comment> \<open>\<open>c.join(parts)\<close>\<close>
  "join_with c [] = []"
| "join_with c [p] = p"
| "join_with c (p # q # ps) = p @ c # join_with c (q # ps)"

definition resolve_segment :: "string list \<Rightarrow> string \<Rightarrow> string list" where
  \<comment> \<open>one round of the loop of \<open>urljoin\<close> over the segments\<close>
  "resolve_segment resolved seg =
     (if seg = ''..'' then butlast resolved
      else if seg = ''.'' then resolved
      else resolved @ [seg])"

definition urljoin :: "(string \<Rightarrow> bool) \<Rightarrow> string \<Rightarrow> string \<Rightarrow> py_error + string" where
  "urljoin bh base url =
     (if base = [] then Inr url
      else if url = [] then Inr base
      else (case urlparse bh base [] of
              Inl e \<Rightarrow> Inl e
            | Inr (bscheme, bnetloc, bpath, bparams, bquery, bfragment) \<Rightarrow>
          (case urlparse bh url bscheme of
              Inl e \<Rightarrow> Inl e
            | Inr (scheme, netloc, path, params, query, fragment) \<Rightarrow>
          (if scheme \<noteq> bscheme \<or> scheme \<notin> set uses_relative then Inr url
           else if scheme \<in> set uses_netloc \<and> netloc \<noteq> []
           then Inr (urlunparse (scheme, netloc, path, params, query, fragment))
           else (let netloc1 = (if scheme \<in> set uses_netloc then bnetloc else netloc)
                 in if path = [] \<and> params = []
                    then Inr (urlunparse (scheme, netloc1, bpath, bparams,
                                          (if query = [] then bquery else query), fragment))
                    else (let base_parts0 = split_on (CHR ''/'') bpath;
                              base_parts = (if last base_parts0 \<noteq> [] then butlast base_parts0
                                            else base_parts0);
                              segments0 = base_parts @ split_on (CHR ''/'') path;
                              segments =
                                (if take 1 path = ''/'' then split_on (CHR ''/'') path
                                 else if length segments0 \<le> 1 then segments0
                                 else hd segments0
                                      # filter (\<lambda>s. s \<noteq> []) (butlast (tl segments0))
                                      @ [last segments0]);
                              resolved0 = foldl resolve_segment [] segments;
                              resolved = (if last segments = ''.'' \<or> last segments = ''..''
                                          then resolved0 @ [[]] else resolved0);
                              joined = join_with (CHR ''/'') resolved
                          in Inr (urlunparse (scheme, netloc1,
                                              (if joined = [] then ''/'' else joined),
                                              params, query, fragment))))))))"

definition abs_url :: "(string \<Rightarrow> bool) \<Rightarrow> string \<Rightarrow> string option \<Rightarrow> py_error + string option" where
  \<comment> \<open>\<open>_abs\<close>; every call site passes \<open>None\<close> or a \<open>str\<close>\<close>
  "abs_url bh base h0 =
     (case h0 of
        None \<Rightarrow> Inr None
      | Some h1 \<Rightarrow>
          if h1 = [] then Inr None
          else (let h = py_strip h1
                in if startswith h ''//'' then Inr (Some (''https:'' @ h))
                   else if startswith h ''http://'' \<or> startswith h ''https://'' then Inr (Some h)
                   else if startswith h ''www.'' then Inr (Some (''https://'' @ h))
                   else if startswith h ''/'' then map_sum id Some (urljoin bh base h)
                   else map_sum id Some (urljoin bh base (''/'' @ h))))"

definition normalize_url :: "(string \<Rightarrow> bool) \<Rightarrow> pyval \<Rightarrow> py_error + pyval" where
  \<comment> \<open>\<open>_normalize_url\<close>; \<open>urlsplit\<close> raises \<open>AttributeError\<close> on a value that is
      neither a string nor falsy\<close>
  "normalize_url bh u =
     (if \<not> truthy u then Inr u
      else (case u of
              PStr s \<Rightarrow> (case urlsplit bh s [] of
                           Inl e \<Rightarrow> Inl e
                         | Inr (scheme, netloc, path, query, fragment) \<Rightarrow>
                             Inr (PStr (urlunsplit (scheme, netloc, path, [], []))))
            | _ \<Rightarrow> Inl AttributeError))"

section \<open>Structured-data search\<close>

definition KEYS :: "string list" where
  "KEYS = [''price'', ''listPrice'', ''primaryPrice'', ''mileage'', ''miles'', ''year'',
           ''make'', ''model'', ''title'', ''heading'', ''vdpUrl'', ''url'', ''vin'']"

definition looks :: "(string \<times> pyval) list \<Rightarrow> bool" where
  \<comment> \<open>\<open>len({k.lower() for k in d.keys()} & {k.lower() for k in KEYS}) >= 3\<close>\<close>
  "looks d = (card (set (map py_lower (map fst d)) \<inter> set (map py_lower KEYS)) \<ge> 3)"

fun rec_walk :: "pyval \<Rightarrow> pyval list" where
  \<comment> \<open>the inner \<open>rec\<close>; the result is what the call appends to \<open>out\<close>, in order\<close>
  "rec_walk (PDict kvs) =
     (if looks kvs then [PDict kvs] else []) @ concat (map (\<lambda>kv. rec_walk (snd kv)) kvs)"
| "rec_walk (PList xs) = concat (map rec_walk xs)"
| "rec_walk v = []"

definition walk_find_listings :: "pyval \<Rightarrow> pyval list" where
  \<comment> \<open>\<open>_walk_find_listings\<close>\<close>
  "walk_find_listings obj = rec_walk obj"

section \<open>Rows\<close>

text \<open>
  A row is the dictionary with the eight keys that both construction sites write.
  \<open>price\<close> and \<open>miles\<close> only ever hold \<open>None\<close> or an instance of \<open>int\<close>
  (the parsers return nothing else and the coercion guards them with \<open>isinstance\<close>);
  a \<open>bool\<close>, which is an \<open>int\<close> to \<open>isinstance\<close>, is held as its integer value.
\<close>

record row =
  source :: string
  title :: pyval
  price :: "int option"
  miles :: "int option"
  year :: pyval
  location :: pyval
  dealer :: pyval
  url :: pyval

definition dict_get :: "(string \<times> pyval) list \<Rightarrow> string \<Rightarrow> pyval" where
  \<comment> \<open>\<open>d.get(k)\<close>\<close>
  "dict_get d k = (case map_of d k of None \<Rightarrow> PNone | Some v \<Rightarrow> v)"

definition as_int :: "pyval \<Rightarrow> int option" where
  \<comment> \<open>\<open>x if isinstance(x, int) else None\<close>\<close>
  "as_int v = (case v of PInt i \<Rightarrow> Some i | PBool b \<Rightarrow> Some (if b then 1 else 0) | _ \<Rightarrow> None)"

definition of_int_opt :: "int option \<Rightarrow> pyval" where
  "of_int_opt x = (case x of None \<Rightarrow> PNone | Some i \<Rightarrow> PInt i)"

definition coerce_number :: "(string option \<Rightarrow> int option) \<Rightarrow> pyval \<Rightarrow> int option" where
  \<comment> \<open>\<open>if isinstance(x, str): x = parse(x) or _to_int(x)\<close>, then
      \<open>x if isinstance(x, int) else None\<close>\<close>
  "coerce_number parse v =
     (case v of PStr s \<Rightarrow> int_or (parse (Some s)) (to_int (Some s)) | _ \<Rightarrow> as_int v)"

definition coerce_listing ::
  "(string \<Rightarrow> bool) \<Rightarrow> (string \<times> pyval) list \<Rightarrow> string \<Rightarrow> string \<Rightarrow> py_error + row" where
  \<comment> \<open>\<open>_coerce_listing\<close>\<close>
  "coerce_listing bh d src base =
     (let title0 = py_or (dict_get d ''title'') (dict_get d ''heading'');
          price0 = py_or (py_or (dict_get d ''price'') (dict_get d ''listPrice''))
                         (dict_get d ''primaryPrice'');
          miles0 = py_or (dict_get d ''miles'') (dict_get d ''mileage'');
          url0 = py_or (py_or (dict_get d ''url'') (dict_get d ''vdpUrl'')) (dict_get d ''link'');
          dealer0 = py_or (py_or (dict_get d ''dealerName'') (dict_get d ''sellerName''))
                          (dict_get d ''storeName'');
          loc = py_or (dict_get d ''location'') (dict_get d ''city'');
          year0 = dict_get d ''year'';
          year1 = (case year0 of PStr s \<Rightarrow> of_int_opt (to_int (Some s)) | _ \<Rightarrow> year0)
      in case (if \<not> truthy year1 then map_sum id of_int_opt (parse_year_from_text title0)
               else Inr year1) of
           Inl e \<Rightarrow> Inl e
         | Inr year2 \<Rightarrow>
             (case (case url0 of
                      PStr s \<Rightarrow> if s \<noteq> [] then map_sum id (\<lambda>r. case r of None \<Rightarrow> PNone | Some a \<Rightarrow> PStr a)
                                                     (abs_url bh base (Some s))
                                else Inr url0
                    | _ \<Rightarrow> Inr url0) of
                Inl e \<Rightarrow> Inl e
              | Inr url1 \<Rightarrow>
                  Inr \<lparr>source = src, title = title0,
                       price = coerce_number parse_price price0,
                       miles = coerce_number parse_miles miles0,
                       year = year2, location = loc, dealer = dealer0, url = url1\<rparr>))"

section \<open>Year filter and deduplication\<close>

definition py_eq_int :: "pyval \<Rightarrow> int \<Rightarrow> bool" where
  \<comment> \<open>\<open>v == n\<close> for an \<open>int\<close> \<open>n\<close>: numbers compare by value, \<open>True\<close> is 1 and
      \<open>False\<close> is 0, every other value differs from a number\<close>
  "py_eq_int v n = (case v of
       PInt i \<Rightarrow> i = n
     | PBool b \<Rightarrow> (if b then 1 else 0) = n
     | PFloat f \<Rightarrow> f = Finite (of_int n)
     | _ \<Rightarrow> False)"

definition enforce_year :: "row list \<Rightarrow> int \<Rightarrow> row list" where
  \<comment> \<open>\<open>_enforce_year\<close>\<close>
  "enforce_year rows target_year = filter (\<lambda>r. py_eq_int (year r) target_year) rows"

fun dedupe_loop ::
  "(string \<Rightarrow> bool) \<Rightarrow> row list \<Rightarrow> int \<Rightarrow> row list \<Rightarrow> pyval set \<Rightarrow> py_error + row list" where
  \<comment> \<open>the loop of \<open>_dedupe_and_trim\<close> over the remaining rows, with \<open>uniq\<close> and \<open>seen\<close>\<close>
  "dedupe_loop bh [] k uniq seen = Inr uniq"
| "dedupe_loop bh (r # rs) k uniq seen =
     (case normalize_url bh (url r) of
        Inl e \<Rightarrow> Inl e
      | Inr u \<Rightarrow>
          if \<not> truthy u then dedupe_loop bh rs k uniq seen
          else if u \<in> seen then dedupe_loop bh rs k uniq seen
          else if int (length (uniq @ [r\<lparr>url := u\<rparr>])) \<ge> k then Inr (uniq @ [r\<lparr>url := u\<rparr>])
          else dedupe_loop bh rs k (uniq @ [r\<lparr>url := u\<rparr>]) (insert u seen))"

definition dedupe_and_trim :: "(string \<Rightarrow> bool) \<Rightarrow> row list \<Rightarrow> int \<Rightarrow> py_error + row list" where
  \<comment> \<open>\<open>_dedupe_and_trim\<close>\<close>
  "dedupe_and_trim bh rows k = dedupe_loop bh rows k [] {}"

section \<open>Source scrapers\<close>

text \<open>
  What a scraper has gathered from the cards and the embedded JSON of its pages when it
  reaches its last three statements, or a fault raised before that. Both scrapers end
  with the same statements: the year filter, then the deduplication.
\<close>

datatype gathered = ScrapeFault | Gathered "row list"

definition scraper_tail ::
  "(string \<Rightarrow> bool) \<Rightarrow> int \<Rightarrow> int \<Rightarrow> gathered \<Rightarrow> py_error + row list" where
  "scraper_tail bh target_year max_results g =
     (case g of
        ScrapeFault \<Rightarrow> Inl BrowserError
      | Gathered rows \<Rightarrow> dedupe_and_trim bh (enforce_year rows target_year) max_results)"

section \<open>Enrichment\<close>

text \<open>
  What the browser answers during one visit of a detail page: whether the page opens,
  how the navigation ends, whether scrolling and reading the markup succeed, what
  \<open>locator(sel).first.text_content\<close> gives for a selector (\<open>None\<close>: it raises;
  \<open>Some t\<close>: it returns the optional text \<open>t\<close>), and whether closing the page succeeds.
\<close>

datatype nav = NavOk | NavTimeout | NavFault

record vdp =
  opens :: bool
  goto :: nav
  scroll_ok :: bool
  content :: "string option"
  text_content :: "string \<Rightarrow> string option option"
  close_ok :: bool

text \<open>
  \<open>enrich_vdp\<close> updates the row object in place. Its outcome is the state of that object
  when the call ends, together with whether the call returned or raised.
\<close>

datatype outcome = Returned row | Raised py_error row

definition py_in :: "string \<Rightarrow> pyval \<Rightarrow> py_error + bool" where
  \<comment> \<open>\<open>p in v\<close> for a string \<open>p\<close>: substring of a string, element of a list, key of a
      dictionary, \<open>TypeError\<close> on the other values\<close>
  "py_in p v = (case v of
       PStr s \<Rightarrow> Inr (contains_str p s)
     | PList xs \<Rightarrow> Inr (PStr p \<in> set xs)
     | PDict kvs \<Rightarrow> Inr (p \<in> set (map fst kvs))
     | _ \<Rightarrow> Inl TypeError)"

definition vdp_selectors :: "pyval \<Rightarrow> py_error + (string \<times> string)" where
  \<comment> \<open>the three-way choice of \<open>sels_price\<close> and \<open>sels_miles\<close>\<close>
  "vdp_selectors u =
     (case py_in ''cars.com'' u of
        Inl e \<Rightarrow> Inl e
      | Inr c \<Rightarrow>
          if c then Inr (''[data-test='' @ [CHR 0x27] @ ''vdp-price'' @ [CHR 0x27]
                          @ ''], .vehicle-info__price-display, .primary-price'',
                         ''[data-test='' @ [CHR 0x27] @ ''mileage'' @ [CHR 0x27]
                          @ ''], .mileage, .vehicle-mileage'')
          else (case py_in ''autotrader.com'' u of
                  Inl e \<Rightarrow> Inl e
                | Inr a \<Rightarrow>
                    if a then Inr (''[data-cmp='' @ [CHR 0x27] @ ''stylePrice'' @ [CHR 0x27]
                                    @ ''], [data-cmp='' @ [CHR 0x27] @ ''firstPrice'' @ [CHR 0x27]
                                    @ ''], [data-cmp='' @ [CHR 0x27] @ ''price'' @ [CHR 0x27] @ '']'',
                                   ''[data-cmp='' @ [CHR 0x27] @ ''odometer'' @ [CHR 0x27]
                                    @ ''], [data-cmp='' @ [CHR 0x27] @ ''mileage'' @ [CHR 0x27] @ '']'')
                    else Inr (''h1, h2, .price, [class*='' @ [CHR 0x27] @ ''price'' @ [CHR 0x27] @ '']'',
                              ''.mileage, [class*='' @ [CHR 0x27] @ ''mileage'' @ [CHR 0x27] @ '']'')))"

definition enrich_vdp :: "vdp \<Rightarrow> row \<Rightarrow> outcome" where
  "enrich_vdp v r =
     (if \<not> truthy (url r) then Returned r
      else if \<not> opens v then Raised BrowserError r
      else if goto v = NavFault then Raised BrowserError r
      else if \<not> scroll_ok v then Raised BrowserError r
      else (case content v of
              None \<Rightarrow> Raised BrowserError r
            | Some html \<Rightarrow>
      (case vdp_selectors (url r) of
         Inl e \<Rightarrow> Raised e r
       | Inr (sels_price, sels_miles) \<Rightarrow>
      (let price1 = (case text_content v sels_price of
                       None \<Rightarrow> price r
                     | Some ptxt \<Rightarrow> int_or (price r) (parse_price ptxt));
           miles1 = (case text_content v sels_miles of
                       None \<Rightarrow> miles r
                     | Some mtxt \<Rightarrow> int_or (miles r) (parse_miles mtxt));
           title1 = (if \<not> truthy (title r)
                     then (case text_content v ''h1, h2'' of
                             Some (Some t) \<Rightarrow> PStr (py_strip t)
                           | _ \<Rightarrow> title r)
                     else title r)
       in case (if \<not> truthy (year r)
                then (case parse_year_from_text title1 of
                        Inl e \<Rightarrow> Inl e
                      | Inr y \<Rightarrow> if int_truthy y then Inr (of_int_opt y)
                                 else map_sum id of_int_opt (parse_year_from_text (PStr html)))
                else Inr (year r)) of
            Inl e \<Rightarrow> Raised e r
          | Inr year1 \<Rightarrow>
              (let price2 = (if \<not> int_truthy price1 \<or> \<not> int_truthy miles1
                             then int_or price1 (parse_price (Some html)) else price1);
                   miles2 = (if \<not> int_truthy price1 \<or> \<not> int_truthy miles1
                             then int_or miles1 (parse_miles (Some html)) else miles1);
                   r1 = r\<lparr>title := title1, price := price2, miles := miles2, year := year1\<rparr>
               in if close_ok v then Returned r1 else Raised BrowserError r1)))))"

section \<open>Orchestrator\<close>

text \<open>
  The browser as the orchestrator sees it: whether launching it and opening the context
  and the pages succeed, what the \<open>i\<close>-th enrichment visit answers (\<open>i\<close> counts the
  merged rows from 1, as \<open>enumerate(out, 1)\<close> does), and whether closing the context and
  the browser succeeds.
\<close>

record browser =
  setup_ok :: bool
  visit :: "nat \<Rightarrow> vdp"
  teardown_ok :: bool

definition fully_populated :: "row \<Rightarrow> bool" where
  \<comment> \<open>\<open>r.get("price") and r.get("miles") and r.get("title") and r.get("year")\<close>\<close>
  "fully_populated r =
     (int_truthy (price r) \<and> int_truthy (miles r) \<and> truthy (title r) \<and> truthy (year r))"

definition enrich_row :: "vdp \<Rightarrow> row \<Rightarrow> row" where
  \<comment> \<open>one round of the enrichment loop: what is appended to \<open>enriched\<close>. After a
      raise the appended \<open>r\<close> is the same object that \<open>enrich_vdp\<close> worked on\<close>
  "enrich_row v r =
     (if fully_populated r then r
      else (case enrich_vdp v r of Returned r1 \<Rightarrow> r1 | Raised e r1 \<Rightarrow> r1))"

fun enrich_loop :: "(nat \<Rightarrow> vdp) \<Rightarrow> nat \<Rightarrow> row list \<Rightarrow> row list" where
  "enrich_loop vs i [] = []"
| "enrich_loop vs i (r # rs) = enrich_row (vs i) r # enrich_loop vs (Suc i) rs"

definition merge_results :: "(py_error + row list) list \<Rightarrow> row list" where
  \<comment> \<open>the loop over the results of \<open>gather\<close>: an exception contributes no row\<close>
  "merge_results results =
     concat (map (\<lambda>r. case r of Inl e \<Rightarrow> [] | Inr rows \<Rightarrow> rows) results)"

definition sort_key_of :: "row \<Rightarrow> int \<times> int" where
  \<comment> \<open>\<open>(10**9 if r.get("price") is None else r["price"], r.get("miles") or 10**9)\<close>\<close>
  "sort_key_of r =
     ((case price r of None \<Rightarrow> 10 ^ 9 | Some p \<Rightarrow> p),
      (case miles r of None \<Rightarrow> 10 ^ 9 | Some m \<Rightarrow> if m \<noteq> 0 then m else 10 ^ 9))"

definition site_tasks :: "string \<Rightarrow> gathered \<Rightarrow> gathered \<Rightarrow> gathered list" where
  \<comment> \<open>the tasks that are started for \<open>site\<close>, Autotrader first\<close>
  "site_tasks site at_task cars_task =
     (if site = ''both'' \<or> site = ''autotrader'' then [at_task] else [])
     @ (if site = ''both'' \<or> site = ''cars'' then [cars_task] else [])"

definition merged_rows ::
  "(string \<Rightarrow> bool) \<Rightarrow> string \<Rightarrow> int \<Rightarrow> int \<Rightarrow> gathered \<Rightarrow> gathered \<Rightarrow> row list" where
  \<comment> \<open>\<open>out\<close> after the scrapers' tasks have been gathered\<close>
  "merged_rows bh site target_year max_results_each at_task cars_task =
     merge_results (map (scraper_tail bh target_year max_results_each) (site_tasks site at_task cars_task))"

definition query_listings_async ::
  "(string \<Rightarrow> bool) \<Rightarrow> browser \<Rightarrow> string \<Rightarrow> int \<Rightarrow> int \<Rightarrow> bool \<Rightarrow> gathered \<Rightarrow> gathered
   \<Rightarrow> py_error + row list" where
  "query_listings_async bh br site target_year max_results_each enrich at_task cars_task =
     (if \<not> setup_ok br then Inl BrowserError
      else (let out0 = merged_rows bh site target_year max_results_each at_task cars_task;
                out1 = (if enrich then enforce_year (enrich_loop (visit br) 1 out0) target_year
                        else out0)
            in if \<not> teardown_ok br then Inl BrowserError
               else Inr (sort_key sort_key_of (filter (\<lambda>r. truthy (url r)) out1))))"

section \<open>The claims' notions\<close>

text \<open>
  The definitions of this section follow the wording of the specification, not the
  source; the theorems compare them with the functions above.
\<close>

fun subvalues :: "pyval \<Rightarrow> pyval list" where
  \<comment> \<open>a value and everything nested in it, at any depth, through the values of
      dictionaries and the elements of arrays, depth first\<close>
  "subvalues (PDict kvs) = PDict kvs # concat (map (\<lambda>kv. subvalues (snd kv)) kvs)"
| "subvalues (PList xs) = PList xs # concat (map subvalues xs)"
| "subvalues v = [v]"

definition listing_like :: "pyval \<Rightarrow> bool" where
  \<comment> \<open>a dictionary among whose keys at least three words of the vocabulary occur,
      letter case ignored\<close>
  "listing_like v = (case v of
       PDict kvs \<Rightarrow> length (filter (\<lambda>w. w \<in> set (map py_lower (map fst kvs)))
                                  (remdups (map py_lower KEYS))) \<ge> 3
     | _ \<Rightarrow> False)"

section \<open>Auxiliary notions for the proofs about URLs\<close>

text \<open>
  Names for intermediate values of \<open>urlsplit\<close> and \<open>urlunsplit\<close>: the cleaned input,
  the path with query and fragment cut off, the scheme test, the condition under which
  \<open>urlunsplit\<close> writes the \<open>//\<close> of a network location, the path it writes then, and the
  properties of the components that \<open>urlsplit\<close> returns.
\<close>

definition strip_qf :: "string \<Rightarrow> string" where
  "strip_qf u = takeWhile (\<lambda>x. x \<noteq> CHR ''?'') (takeWhile (\<lambda>x. x \<noteq> CHR ''#'') u)"

definition clean :: "string \<Rightarrow> string" where
  "clean u = filter (\<lambda>c. \<not> unsafe_byte c) (dropWhile c0_or_space u)"

definition has_scheme :: "string \<Rightarrow> bool" where
  "has_scheme u = (CHR '':'' \<in> set u \<and> takeWhile (\<lambda>c. c \<noteq> CHR '':'') u \<noteq> []
                   \<and> ascii_alpha (hd u) \<and> list_all scheme_char (takeWhile (\<lambda>c. c \<noteq> CHR '':'') u))"

definition url_parts_ok :: "(string \<Rightarrow> bool) \<Rightarrow> string \<Rightarrow> string \<Rightarrow> string \<Rightarrow> bool" where
  "url_parts_ok bh scheme netloc path =
     ((scheme = [] \<or> (ascii_alpha (hd scheme) \<and> list_all scheme_char scheme
                        \<and> py_lower scheme = scheme))
      \<and> list_all (\<lambda>x. \<not> netloc_delim x \<and> \<not> unsafe_byte x) netloc
      \<and> netloc_ok bh netloc
      \<and> list_all (\<lambda>x. x \<noteq> CHR ''?'' \<and> x \<noteq> CHR ''#'' \<and> \<not> unsafe_byte x) path
      \<and> (netloc = [] \<or> path = [] \<or> hd path = CHR ''/'')
      \<and> (scheme \<noteq> [] \<or> netloc \<noteq> [] \<or> path = []
          \<or> (\<not> c0_or_space (hd path) \<and> \<not> has_scheme path)))"

definition wants_netloc :: "string \<Rightarrow> string \<Rightarrow> string \<Rightarrow> bool" where
  "wants_netloc scheme netloc path =
     (netloc \<noteq> [] \<or> (scheme \<noteq> [] \<and> scheme \<in> set uses_netloc) \<or> take 2 path = ''//'')"

definition rooted :: "string \<Rightarrow> string" where
  "rooted path = (if path \<noteq> [] \<and> take 1 path \<noteq> ''/'' then ''/'' @ path else path)"

(*DEFS-END*)

section \<open>Properties of the field parsers\<close>

text \<open>
  C9. The field parsers give the documented results: \<open>parse_price\<close> returns 12500 on
  "$12,500 OBO" and null on "Call for price"; \<open>parse_miles\<close> returns 45213 on
  "45,213 miles" and null on the empty string; \<open>parse_year_from_text\<close> returns 2015 on
  "2015 Toyota Camry LE" and null on "Camry LE"; and each parser returns null, without
  raising, on an absent or empty input.
\<close>

theorem field_parser_examples:
  "parse_price (Some ''$12,500 OBO'') = Some 12500
   \<and> parse_price (Some ''Call for price'') = None
   \<and> parse_miles (Some ''45,213 miles'') = Some 45213
   \<and> parse_miles (Some '''') = None
   \<and> parse_year_from_text (PStr ''2015 Toyota Camry LE'') = Inr (Some 2015)
   \<and> parse_year_from_text (PStr ''Camry LE'') = Inr None
   \<and> parse_price None = None \<and> parse_price (Some '''') = None
   \<and> parse_miles None = None
   \<and> parse_year_from_text PNone = Inr None
   \<and> parse_year_from_text (PStr '''') = Inr None"
  by code_simp

section \<open>Properties of the structured-data search\<close>

lemma looks_iff: "looks kvs = listing_like (PDict kvs)"
proof -
  have "set (map py_lower (map fst kvs)) \<inter> set (map py_lower KEYS)
        = set (filter (\<lambda>w. w \<in> set (map py_lower (map fst kvs))) (remdups (map py_lower KEYS)))"
    by auto
  then show ?thesis
    unfolding looks_def listing_like_def
    by (simp add: distinct_card del: set_map set_filter)
qed

lemma listing_like_simps:
  "\<not> listing_like PNone" "\<not> listing_like (PBool b)" "\<not> listing_like (PInt i)"
  "\<not> listing_like (PFloat f)" "\<not> listing_like (PStr s)" "\<not> listing_like (PList xs)"
  by (simp_all add: listing_like_def)

lemma rec_walk_filter: "rec_walk obj = filter listing_like (subvalues obj)"
proof (induction obj)
  case (PList xs)
  then have eq: "map rec_walk xs = map (\<lambda>v. filter listing_like (subvalues v)) xs"
    by (intro map_cong) auto
  show ?case
    unfolding rec_walk.simps subvalues.simps eq
    by (simp add: listing_like_simps filter_concat comp_def)
next
  case (PDict kvs)
  then have eq: "map (\<lambda>kv. rec_walk (snd kv)) kvs
             = map (\<lambda>kv. filter listing_like (subvalues (snd kv))) kvs"
    by (intro map_cong) (auto simp: snds.simps)
  show ?case
    unfolding rec_walk.simps subvalues.simps eq
    by (simp add: looks_iff filter_concat comp_def)
qed (simp_all add: listing_like_simps)

text \<open>
  C7. For every JSON value the search collects exactly the dictionaries, at any nesting
  depth, among whose lower-cased keys at least three lower-cased words of the
  thirteen-word vocabulary occur, in depth-first order; and a dictionary that matched is
  still searched: the result for it is the dictionary followed by the results for its
  values.
\<close>

theorem walk_collects_listing_like:
  "walk_find_listings obj = filter listing_like (subvalues obj)
   \<and> (listing_like (PDict kvs) \<longrightarrow>
        walk_find_listings (PDict kvs)
        = PDict kvs # concat (map (\<lambda>kv. walk_find_listings (snd kv)) kvs))"
proof -
  have collected: "walk_find_listings obj = filter listing_like (subvalues obj)"
    by (simp add: walk_find_listings_def rec_walk_filter)
  have continued: "listing_like (PDict kvs) \<longrightarrow>
        walk_find_listings (PDict kvs)
        = PDict kvs # concat (map (\<lambda>kv. walk_find_listings (snd kv)) kvs)"
    by (simp add: walk_find_listings_def looks_iff)
  show ?thesis
    using collected continued by blast
qed

theorem walk_collects_listing_like_witness:
  "listing_like (PDict [(''Price'', PInt 1), (''YEAR'', PInt 2), (''url'', PNone),
                        (''offers'', PList [PDict [(''vin'', PNone), (''make'', PNone),
                                                   (''model'', PNone)]])])
   \<and> walk_find_listings
        (PDict [(''Price'', PInt 1), (''YEAR'', PInt 2), (''url'', PNone),
                (''offers'', PList [PDict [(''vin'', PNone), (''make'', PNone),
                                           (''model'', PNone)]])])
     = [PDict [(''Price'', PInt 1), (''YEAR'', PInt 2), (''url'', PNone),
               (''offers'', PList [PDict [(''vin'', PNone), (''make'', PNone),
                                          (''model'', PNone)]])],
        PDict [(''vin'', PNone), (''make'', PNone), (''model'', PNone)]]"
proof -
  let ?inner = "PDict [(''vin'', PNone), (''make'', PNone), (''model'', PNone)]"
  let ?kvs = "[(''Price'', PInt 1), (''YEAR'', PInt 2), (''url'', PNone),
               (''offers'', PList [?inner])]"
  have h: "listing_like (PDict ?kvs)"
    by code_simp
  have "walk_find_listings (PDict ?kvs)
        = PDict ?kvs # concat (map (\<lambda>kv. walk_find_listings (snd kv)) ?kvs)"
    using walk_collects_listing_like [of "PDict ?kvs" ?kvs] h by blast
  moreover have "concat (map (\<lambda>kv. walk_find_listings (snd kv)) ?kvs) = [?inner]"
    by code_simp
  ultimately show ?thesis
    using h by simp
qed

section \<open>Properties of the coercion\<close>

text \<open>
  C6. Coercing the raw candidate with \<open>listPrice\<close> "$9,000", \<open>mileage\<close> "30,000 miles",
  \<open>year\<close> "2015" and \<open>url\<close> "/vdp/1", for any source and the base URL
  "https://site.com", yields a listing with price 9000, miles 30000, year 2015 and url
  "https://site.com/vdp/1"; the fields that the candidate does not give are null.
\<close>

theorem coerce_listing_example:
  "coerce_listing bh
     [(''listPrice'', PStr ''$9,000''), (''mileage'', PStr ''30,000 miles''),
      (''year'', PStr ''2015''), (''url'', PStr ''/vdp/1'')] src ''https://site.com''
   = Inr \<lparr>source = src, title = PNone, price = Some 9000, miles = Some 30000,
          year = PInt 2015, location = PNone, dealer = PNone,
          url = PStr ''https://site.com/vdp/1''\<rparr>"
  by code_simp

section \<open>Properties of URL splitting and normalization\<close>

lemma unsafe_c0: "unsafe_byte c \<Longrightarrow> c0_or_space c"
  by (auto simp: unsafe_byte_def c0_or_space_def)

lemma scheme_char_facts:
  assumes "scheme_char c"
  shows "c \<noteq> CHR '':''" "\<not> unsafe_byte c" "\<not> netloc_delim c" "\<not> c0_or_space c"
  using assms
  by (auto simp: scheme_char_def unsafe_byte_def netloc_delim_def c0_or_space_def Let_def)

lemma scheme_char_lower: "scheme_char c \<Longrightarrow> scheme_char (py_lower_char c)"
  by (auto simp: scheme_char_def py_lower_char_def Let_def)

lemma ascii_alpha_lower: "ascii_alpha c \<Longrightarrow> ascii_alpha (py_lower_char c)"
  by (auto simp: ascii_alpha_def py_lower_char_def Let_def)

lemma ascii_alpha_scheme: "ascii_alpha c \<Longrightarrow> scheme_char c"
  by (auto simp: ascii_alpha_def scheme_char_def Let_def)

lemma ascii_alpha_not_slash: "ascii_alpha c \<Longrightarrow> c \<noteq> CHR ''/''"
  by (auto simp: ascii_alpha_def Let_def)

lemma lower_lower_char: "py_lower_char (py_lower_char c) = py_lower_char c"
  by (auto simp: py_lower_char_def Let_def)

lemma while_absent:
  "c \<notin> set s \<Longrightarrow> takeWhile (\<lambda>x. x \<noteq> c) s = s \<and> dropWhile (\<lambda>x. x \<noteq> c) s = []"
  by (induction s) auto

lemma split1_eq:
  "split1 c s = (takeWhile (\<lambda>x. x \<noteq> c) s, drop 1 (dropWhile (\<lambda>x. x \<noteq> c) s))"
  by (cases "c \<in> set s") (simp_all add: split1_def while_absent)

lemma split1_absent: "c \<notin> set s \<Longrightarrow> split1 c s = (s, [])"
  by (simp add: split1_def)

lemma strip_qf_Nil [simp]: "strip_qf [] = []"
  by (simp add: strip_qf_def)

lemma strip_qf_Cons:
  "strip_qf (c # u) = (if c = CHR ''#'' \<or> c = CHR ''?'' then [] else c # strip_qf u)"
  by (simp add: strip_qf_def)

lemma strip_qf_set: "x \<in> set (strip_qf u) \<Longrightarrow> x \<in> set u"
  by (induction u) (auto simp: strip_qf_Cons split: if_splits)

lemma strip_qf_no_q: "CHR ''?'' \<notin> set (strip_qf u)"
  by (induction u) (auto simp: strip_qf_Cons)

lemma strip_qf_no_f: "CHR ''#'' \<notin> set (strip_qf u)"
  by (induction u) (auto simp: strip_qf_Cons)

lemma strip_qf_prefix: "\<exists>rest. u = strip_qf u @ rest"
  by (induction u) (auto simp: strip_qf_Cons)

lemma strip_qf_id: "CHR ''?'' \<notin> set u \<Longrightarrow> CHR ''#'' \<notin> set u \<Longrightarrow> strip_qf u = u"
  by (induction u) (auto simp: strip_qf_Cons)

lemma clean_safe: "x \<in> set (clean u) \<Longrightarrow> \<not> unsafe_byte x"
  by (simp add: clean_def)

lemma dropWhile_hd: "dropWhile P u = d # ds \<Longrightarrow> \<not> P d"
  by (induction u) (auto split: if_splits)

lemma clean_hd: "clean u = d # ds \<Longrightarrow> \<not> c0_or_space d"
proof (cases "dropWhile c0_or_space u")
  case Nil
  assume "clean u = d # ds"
  then show ?thesis unfolding clean_def Nil by simp
next
  case (Cons e es)
  assume a: "clean u = d # ds"
  from Cons have e: "\<not> c0_or_space e" by (rule dropWhile_hd)
  then have "\<not> unsafe_byte e" using unsafe_c0 by blast
  with a have "d = e" unfolding clean_def Cons by simp
  with e show ?thesis by simp
qed

lemma clean_id:
  "\<forall>x\<in>set u. \<not> unsafe_byte x \<Longrightarrow> u = [] \<or> \<not> c0_or_space (hd u) \<Longrightarrow> clean u = u"
  by (cases u) (auto simp: clean_def)

lemma urlsplit_unfold:
  "urlsplit bh s [] =
     (let url2 = snd (split_scheme [] (clean s)); scheme = fst (split_scheme [] (clean s))
      in if take 2 url2 = ''//''
         then (if netloc_ok bh (takeWhile (\<lambda>c. \<not> netloc_delim c) (drop 2 url2))
               then Inr (scheme, takeWhile (\<lambda>c. \<not> netloc_delim c) (drop 2 url2),
                         strip_qf (dropWhile (\<lambda>c. \<not> netloc_delim c) (drop 2 url2)),
                         snd (split1 (CHR ''?'') (fst (split1 (CHR ''#'')
                               (dropWhile (\<lambda>c. \<not> netloc_delim c) (drop 2 url2))))),
                         snd (split1 (CHR ''#'') (dropWhile (\<lambda>c. \<not> netloc_delim c) (drop 2 url2))))
               else Inl ValueError)
         else Inr (scheme, [], strip_qf url2,
                   snd (split1 (CHR ''?'') (fst (split1 (CHR ''#'') url2))),
                   snd (split1 (CHR ''#'') url2)))"
  unfolding urlsplit_def clean_def [symmetric] strip_qf_def
  by (simp add: Let_def split_beta splitnetloc_def split1_eq del: takeWhile_eq_all_conv)

lemma split_scheme_eq:
  "split_scheme x u =
     (if has_scheme u
      then (py_lower (takeWhile (\<lambda>c. c \<noteq> CHR '':'') u),
            drop (length (takeWhile (\<lambda>c. c \<noteq> CHR '':'') u) + 1) u)
      else (x, u))"
  by (simp add: split_scheme_def has_scheme_def Let_def)

lemma has_scheme_hd: "has_scheme u \<Longrightarrow> ascii_alpha (hd u) \<and> u \<noteq> []"
  by (auto simp: has_scheme_def)

lemma split_scheme_fail: "u = [] \<or> \<not> ascii_alpha (hd u) \<Longrightarrow> split_scheme x u = (x, u)"
  by (auto simp: split_scheme_eq has_scheme_def)

lemma takeWhile_colon:
  "\<forall>c\<in>set scheme. scheme_char c \<Longrightarrow>
   takeWhile (\<lambda>c. c \<noteq> CHR '':'') (scheme @ CHR '':'' # body) = scheme"
  using scheme_char_facts(1) by (simp add: takeWhile_append2)

lemma split_scheme_build:
  assumes "scheme \<noteq> []" "ascii_alpha (hd scheme)" "\<forall>c\<in>set scheme. scheme_char c"
  shows "split_scheme x (scheme @ CHR '':'' # body) = (py_lower scheme, body)"
proof -
  have tw: "takeWhile (\<lambda>c. c \<noteq> CHR '':'') (scheme @ CHR '':'' # body) = scheme"
    using assms(3) by (rule takeWhile_colon)
  have "has_scheme (scheme @ CHR '':'' # body)"
    unfolding has_scheme_def tw using assms by (simp add: list_all_iff)
  then show ?thesis
    unfolding split_scheme_eq tw by simp
qed

lemma has_scheme_prefix:
  assumes "has_scheme p"
  shows "has_scheme (p @ rest)"
proof -
  from assms have c: "CHR '':'' \<in> set p" and ne: "p \<noteq> []"
    by (auto simp: has_scheme_def)
  then have tw: "takeWhile (\<lambda>c. c \<noteq> CHR '':'') (p @ rest) = takeWhile (\<lambda>c. c \<noteq> CHR '':'') p"
    by (simp add: takeWhile_append1)
  show ?thesis
    unfolding has_scheme_def tw using assms ne by (auto simp: has_scheme_def)
qed

lemma while_netloc:
  assumes "\<forall>x\<in>set n. P x" "p = [] \<or> \<not> P (hd p)"
  shows "takeWhile P (n @ p) = n" "dropWhile P (n @ p) = p"
  using assms by (cases p; simp add: takeWhile_append2 dropWhile_append2)+

lemma urlsplit_of_parts:
  assumes "clean out = out" "split_scheme [] out = (scheme, body)"
  shows "urlsplit bh out [] =
     (if take 2 body = ''//''
      then (if netloc_ok bh (takeWhile (\<lambda>c. \<not> netloc_delim c) (drop 2 body))
            then Inr (scheme, takeWhile (\<lambda>c. \<not> netloc_delim c) (drop 2 body),
                      strip_qf (dropWhile (\<lambda>c. \<not> netloc_delim c) (drop 2 body)),
                      snd (split1 (CHR ''?'') (fst (split1 (CHR ''#'')
                            (dropWhile (\<lambda>c. \<not> netloc_delim c) (drop 2 body))))),
                      snd (split1 (CHR ''#'') (dropWhile (\<lambda>c. \<not> netloc_delim c) (drop 2 body))))
            else Inl ValueError)
      else Inr (scheme, [], strip_qf body,
                snd (split1 (CHR ''?'') (fst (split1 (CHR ''#'') body))),
                snd (split1 (CHR ''#'') body)))"
  by (simp add: urlsplit_unfold assms Let_def)

lemma urlsplit_netloc_body:
  assumes cl: "clean out = out" and sp: "split_scheme [] out = (scheme, ''//'' @ netloc @ p1)"
    and n: "\<forall>x\<in>set netloc. \<not> netloc_delim x" and ok: "netloc_ok bh netloc"
    and p: "p1 = [] \<or> hd p1 = CHR ''/''"
    and q: "CHR ''?'' \<notin> set p1" "CHR ''#'' \<notin> set p1"
  shows "urlsplit bh out [] = Inr (scheme, netloc, p1, [], [])"
proof -
  have d: "p1 = [] \<or> \<not> \<not> netloc_delim (hd p1)"
    using p by (auto simp: netloc_delim_def)
  have w: "takeWhile (\<lambda>c. \<not> netloc_delim c) (netloc @ p1) = netloc"
          "dropWhile (\<lambda>c. \<not> netloc_delim c) (netloc @ p1) = p1"
    using while_netloc [OF n d] by simp_all
  show ?thesis
    unfolding urlsplit_of_parts [OF cl sp]
    using ok q by (simp add: w split1_absent strip_qf_id)
qed

lemma urlsplit_path_body:
  assumes cl: "clean out = out" and sp: "split_scheme [] out = (scheme, path)"
    and t: "take 2 path \<noteq> ''//''"
    and q: "CHR ''?'' \<notin> set path" "CHR ''#'' \<notin> set path"
  shows "urlsplit bh out [] = Inr (scheme, [], path, [], [])"
  unfolding urlsplit_of_parts [OF cl sp]
  using t q by (simp add: split1_absent strip_qf_id)

lemma urlunsplit_eq:
  "urlunsplit (scheme, netloc, path, [], []) =
     (if scheme \<noteq> [] then scheme @ CHR '':'' # (if wants_netloc scheme netloc path
                                                  then ''//'' @ netloc @ rooted path else path)
      else (if wants_netloc scheme netloc path then ''//'' @ netloc @ rooted path else path))"
  by (simp add: urlunsplit_def wants_netloc_def rooted_def Let_def)

lemma rooted_facts:
  "rooted path = [] \<or> hd (rooted path) = CHR ''/''"
  "rooted (rooted path) = rooted path"
  "set (rooted path) \<subseteq> insert (CHR ''/'') (set path)"
  by (cases path; auto simp: rooted_def)+

lemma rooted_take2: "take 2 path = ''//'' \<Longrightarrow> rooted path = path"
  by (cases path) (auto simp: rooted_def)

lemma wants_netloc_rooted:
  "wants_netloc scheme netloc path \<Longrightarrow> wants_netloc scheme netloc (rooted path)"
  by (auto simp: wants_netloc_def rooted_take2)

lemma slash_facts:
  "\<not> unsafe_byte (CHR ''/'')" "\<not> c0_or_space (CHR ''/'')" "\<not> ascii_alpha (CHR ''/'')"
  "\<not> unsafe_byte (CHR '':'')" "CHR ''/'' \<noteq> CHR ''?''" "CHR ''/'' \<noteq> CHR ''#''"
  by (simp_all add: unsafe_byte_def c0_or_space_def ascii_alpha_def)

lemma resplit:
  assumes ok: "url_parts_ok bh scheme netloc path"
    and ne: "urlunsplit (scheme, netloc, path, [], []) \<noteq> []"
  shows "urlsplit bh (urlunsplit (scheme, netloc, path, [], [])) []
           = Inr (scheme, netloc,
                  (if wants_netloc scheme netloc path then rooted path else path), [], [])
         \<and> urlunsplit (scheme, netloc,
                  (if wants_netloc scheme netloc path then rooted path else path), [], [])
           = urlunsplit (scheme, netloc, path, [], [])"
proof -
  let ?A = "wants_netloc scheme netloc path"
  let ?body = "if ?A then ''//'' @ netloc @ rooted path else path"
  let ?out = "urlunsplit (scheme, netloc, path, [], [])"
  have out: "?out = (if scheme \<noteq> [] then scheme @ CHR '':'' # ?body else ?body)"
    by (simp add: urlunsplit_eq)
  from ok have sch: "scheme = [] \<or> (ascii_alpha (hd scheme) \<and> (\<forall>c\<in>set scheme. scheme_char c)
                                      \<and> py_lower scheme = scheme)"
    and nl: "\<forall>x\<in>set netloc. \<not> netloc_delim x" "\<forall>x\<in>set netloc. \<not> unsafe_byte x"
    and nok: "netloc_ok bh netloc"
    and pq: "CHR ''?'' \<notin> set path" "CHR ''#'' \<notin> set path"
    and pu: "\<forall>x\<in>set path. \<not> unsafe_byte x"
    and fl: "scheme \<noteq> [] \<or> netloc \<noteq> [] \<or> path = []
             \<or> (\<not> c0_or_space (hd path) \<and> \<not> has_scheme path)"
    unfolding url_parts_ok_def list_all_iff by blast+
  have rq: "CHR ''?'' \<notin> set (rooted path)" "CHR ''#'' \<notin> set (rooted path)"
    using pq rooted_facts(3) [of path] by auto
  have ru: "\<forall>x\<in>set (rooted path). \<not> unsafe_byte x"
    using pu rooted_facts(3) [of path] slash_facts(1) by auto
  have body_safe: "\<forall>x\<in>set ?body. \<not> unsafe_byte x"
    using nl(2) ru pu slash_facts(1) by auto
  have scheme_safe: "\<forall>x\<in>set scheme. \<not> unsafe_byte x"
    using sch scheme_char_facts(2) by auto
  have out_safe: "\<forall>x\<in>set ?out. \<not> unsafe_byte x"
    unfolding out using body_safe scheme_safe slash_facts(4) by auto
  have not_A: "\<not> ?A \<Longrightarrow> netloc = [] \<and> take 2 path \<noteq> ''//''"
    by (auto simp: wants_netloc_def)
  have out_hd: "\<not> c0_or_space (hd ?out)"
  proof (cases "scheme = []")
    case False
    with sch have "scheme_char (hd scheme)"
      using ascii_alpha_scheme by blast
    then have "\<not> c0_or_space (hd scheme)"
      by (rule scheme_char_facts(4))
    with False show ?thesis
      unfolding out by simp
  next
    case True
    show ?thesis
    proof (cases ?A)
      case True
      with \<open>scheme = []\<close> show ?thesis
        unfolding out using slash_facts(2) by simp
    next
      case False
      with \<open>scheme = []\<close> ne have "path \<noteq> []"
        unfolding out by auto
      with fl \<open>scheme = []\<close> not_A [OF False] have "\<not> c0_or_space (hd path)"
        by auto
      with False \<open>scheme = []\<close> show ?thesis
        unfolding out by simp
    qed
  qed
  have cl: "clean ?out = ?out"
    using out_safe out_hd by (intro clean_id) auto
  have sp: "split_scheme [] ?out = (scheme, ?body)"
  proof (cases "scheme = []")
    case False
    with sch have "split_scheme [] (scheme @ CHR '':'' # ?body) = (py_lower scheme, ?body)"
      by (intro split_scheme_build) auto
    with False sch show ?thesis
      unfolding out by simp
  next
    case True
    show ?thesis
    proof (cases ?A)
      case True
      have "split_scheme [] (''//'' @ netloc @ rooted path) = ([], ''//'' @ netloc @ rooted path)"
        by (rule split_scheme_fail) (simp add: slash_facts(3))
      with True \<open>scheme = []\<close> show ?thesis
        unfolding out by simp
    next
      case False
      with \<open>scheme = []\<close> ne have "path \<noteq> []"
        unfolding out by auto
      with fl \<open>scheme = []\<close> not_A [OF False] have "\<not> has_scheme path"
        by auto
      then have "split_scheme [] path = ([], path)"
        by (simp add: split_scheme_eq)
      with False \<open>scheme = []\<close> show ?thesis
        unfolding out by simp
    qed
  qed
  show ?thesis
  proof (cases ?A)
    case True
    then have sp': "split_scheme [] ?out = (scheme, ''//'' @ netloc @ rooted path)"
      using sp by simp
    have "urlsplit bh ?out [] = Inr (scheme, netloc, rooted path, [], [])"
      using cl sp' nl(1) nok rooted_facts(1) rq by (rule urlsplit_netloc_body)
    moreover have "urlunsplit (scheme, netloc, rooted path, [], []) = ?out"
      by (simp only: urlunsplit_eq True wants_netloc_rooted [OF True] if_True rooted_facts(2))
    ultimately show ?thesis
      using True by simp
  next
    case False
    then have sp': "split_scheme [] ?out = (scheme, path)"
      using sp by simp
    have "urlsplit bh ?out [] = Inr (scheme, [], path, [], [])"
      using cl sp' not_A [OF False] pq by (intro urlsplit_path_body) auto
    with False not_A [OF False] show ?thesis
      by simp
  qed
qed

lemma hd_takeWhile_ne: "takeWhile P xs \<noteq> [] \<Longrightarrow> hd (takeWhile P xs) = hd xs"
  by (cases xs) (auto split: if_splits)

lemma dropWhile_head: "dropWhile P xs = [] \<or> \<not> P (hd (dropWhile P xs))"
  by (induction xs) auto

lemma strip_qf_delim:
  "w = [] \<or> netloc_delim (hd w) \<Longrightarrow> strip_qf w = [] \<or> hd (strip_qf w) = CHR ''/''"
  by (cases w) (auto simp: strip_qf_Cons netloc_delim_def)

lemma strip_qf_after_netloc:
  "strip_qf (dropWhile (\<lambda>c. \<not> netloc_delim c) u) = []
   \<or> hd (strip_qf (dropWhile (\<lambda>c. \<not> netloc_delim c) u)) = CHR ''/''"
  using dropWhile_head [of "\<lambda>c. \<not> netloc_delim c" u]
  by (intro strip_qf_delim) blast

lemma scheme_of_has_scheme:
  assumes "has_scheme cs"
  defines "scheme \<equiv> py_lower (takeWhile (\<lambda>c. c \<noteq> CHR '':'') cs)"
  shows "scheme \<noteq> []" "ascii_alpha (hd scheme)" "list_all scheme_char scheme"
    "py_lower scheme = scheme"
proof -
  let ?pre = "takeWhile (\<lambda>c. c \<noteq> CHR '':'') cs"
  from assms(1) have pre: "?pre \<noteq> []" and al: "ascii_alpha (hd cs)"
    and sc: "list_all scheme_char ?pre"
    by (simp_all add: has_scheme_def)
  show "scheme \<noteq> []"
    using pre by (simp add: scheme_def py_lower_def)
  have "hd scheme = py_lower_char (hd ?pre)"
    using pre by (simp add: scheme_def py_lower_def hd_map)
  also have "hd ?pre = hd cs"
    using pre by (rule hd_takeWhile_ne)
  finally show "ascii_alpha (hd scheme)"
    using al by (simp add: ascii_alpha_lower)
  show "list_all scheme_char scheme"
    using sc by (simp add: scheme_def py_lower_def list_all_iff scheme_char_lower)
  show "py_lower scheme = scheme"
    by (simp add: scheme_def py_lower_def lower_lower_char)
qed

lemma netloc_ok_Nil: "netloc_ok bh []"
  by (simp add: netloc_ok_def)

lemma strip_qf_all:
  assumes "\<forall>x\<in>set u. \<not> unsafe_byte x"
  shows "list_all (\<lambda>x. x \<noteq> CHR ''?'' \<and> x \<noteq> CHR ''#'' \<and> \<not> unsafe_byte x) (strip_qf u)"
  unfolding list_all_iff
  using assms strip_qf_no_q [of u] strip_qf_no_f [of u] strip_qf_set [of _ u] by blast

lemma first_pass:
  assumes "urlsplit bh s [] = Inr (scheme, netloc, path, q, f)"
  shows "url_parts_ok bh scheme netloc path"
proof -
  let ?cs = "clean s"
  let ?url2 = "snd (split_scheme [] ?cs)"
  let ?nd = "\<lambda>c. \<not> netloc_delim c"
  have sch_eq: "scheme = fst (split_scheme [] ?cs)"
    using assms unfolding urlsplit_unfold Let_def by (auto split: if_splits)
  have url2_safe: "\<forall>x\<in>set ?url2. \<not> unsafe_byte x"
    by (auto simp: split_scheme_eq dest: in_set_dropD clean_safe)
  have S: "scheme = [] \<or> (ascii_alpha (hd scheme) \<and> list_all scheme_char scheme
                              \<and> py_lower scheme = scheme)"
    unfolding sch_eq using scheme_of_has_scheme [of ?cs]
    by (simp add: split_scheme_eq)
  show ?thesis
  proof (cases "take 2 ?url2 = ''//''")
    case True
    with assms have nl: "netloc = takeWhile ?nd (drop 2 ?url2)"
      and nok: "netloc_ok bh netloc"
      and pa: "path = strip_qf (dropWhile ?nd (drop 2 ?url2))"
      unfolding urlsplit_unfold Let_def by (auto split: if_splits)
    have n1: "list_all (\<lambda>x. \<not> netloc_delim x \<and> \<not> unsafe_byte x) netloc"
      unfolding nl list_all_iff using url2_safe
      by (auto dest: set_takeWhileD in_set_dropD)
    have p1: "list_all (\<lambda>x. x \<noteq> CHR ''?'' \<and> x \<noteq> CHR ''#'' \<and> \<not> unsafe_byte x) path"
      unfolding pa using url2_safe
      by (intro strip_qf_all) (auto dest: set_dropWhileD in_set_dropD)
    have p2: "path = [] \<or> hd path = CHR ''/''"
      unfolding pa by (rule strip_qf_after_netloc)
    have "path = [] \<or> (\<not> c0_or_space (hd path) \<and> \<not> has_scheme path)"
    proof (cases "path = []")
      case True
      then show ?thesis by simp
    next
      case False
      with p2 have h: "hd path = CHR ''/''" by simp
      have "\<not> has_scheme path"
        using has_scheme_hd [of path] slash_facts(3) unfolding h by blast
      then show ?thesis
        using slash_facts(2) unfolding h by simp
    qed
    with S n1 nok p1 p2 show ?thesis
      unfolding url_parts_ok_def by blast
  next
    case False
    with assms have nl: "netloc = []" and pa: "path = strip_qf ?url2"
      unfolding urlsplit_unfold Let_def by (auto split: if_splits)
    have p1: "list_all (\<lambda>x. x \<noteq> CHR ''?'' \<and> x \<noteq> CHR ''#'' \<and> \<not> unsafe_byte x) path"
      unfolding pa using url2_safe by (rule strip_qf_all)
    have F: "scheme \<noteq> [] \<or> path = [] \<or> (\<not> c0_or_space (hd path) \<and> \<not> has_scheme path)"
    proof (cases "scheme = [] \<and> path \<noteq> []")
      case False
      then show ?thesis by blast
    next
      case True
      then have nh: "\<not> has_scheme ?cs"
        unfolding sch_eq using scheme_of_has_scheme(1) [of ?cs]
        by (auto simp: split_scheme_eq)
      then have u2: "?url2 = ?cs"
        by (simp add: split_scheme_eq)
      obtain rest where cs: "?cs = path @ rest"
        using strip_qf_prefix [of ?cs] unfolding pa u2 by blast
      from True obtain d ds where pd: "path = d # ds"
        by (cases path) auto
      then have "?cs = d # (ds @ rest)"
        using cs by simp
      then have "\<not> c0_or_space d"
        by (rule clean_hd)
      moreover have "\<not> has_scheme path"
        using nh has_scheme_prefix [of path rest] unfolding cs [symmetric] by blast
      ultimately show ?thesis
        using pd by simp
    qed
    with S p1 show ?thesis
      unfolding url_parts_ok_def nl using netloc_ok_Nil by simp
  qed
qed

end
